theory Spec2Isabelle
  imports Main "HOL-Library.Word" "HOL-Library.Signed_Division"
begin

unbundle bit_operations_syntax

section \<open>Helpers.h: turning a failing HRESULT into an exception\<close>

text \<open>
  An \<open>HRESULT\<close> is a 32-bit signed value. The Windows SDK macros \<open>FAILED(hr)\<close> and
  \<open>SUCCEEDED(hr)\<close> are \<open>((HRESULT)(hr)) < 0\<close> and \<open>((HRESULT)(hr)) >= 0\<close>.
  The only exception the program throws is a default-constructed \<open>std::exception\<close>,
  which has no fields.
\<close>

type_synonym HRESULT = "32 word"

datatype cpp_exception = std_exception

definition FAILED :: "HRESULT \<Rightarrow> bool" where
  "FAILED hr = (sint hr < 0)"

definition SUCCEEDED :: "HRESULT \<Rightarrow> bool" where
  "SUCCEEDED hr = (sint hr \<ge> 0)"

definition ThrowIfFailed :: "HRESULT \<Rightarrow> cpp_exception + unit" where
  "ThrowIfFailed hr = (if FAILED hr then Inl std_exception else Inr ())"


section \<open>main.cpp: globals\<close>

text \<open>
  The three globals the command line sets, with their initialisers
  (\<open>g_UseWarp = false\<close>, \<open>g_ClientWidth = 1280\<close>, \<open>g_ClientHeight = 720\<close>).
\<close>

record globals =
  g_UseWarp :: bool
  g_ClientWidth :: "32 word"
  g_ClientHeight :: "32 word"

definition initial_globals :: globals where
  "initial_globals = \<lparr>g_UseWarp = False, g_ClientWidth = 1280, g_ClientHeight = 720\<rparr>"


section \<open>main.cpp: ParseCommandLineArguments\<close>

subsection \<open>Wide strings and the C library calls\<close>

text \<open>
  A \<open>wchar_t\<close> is a 16-bit code unit on Windows; a token is the list of code units
  before its terminating NUL. \<open>L\<close> writes a wide literal from an ASCII one.
\<close>

type_synonym wchar_t = "16 word"
type_synonym wstring = "wchar_t list"

definition L :: "string \<Rightarrow> wstring" where
  "L s = map (\<lambda>c. of_nat (of_char c)) s"

text \<open>\<open>wcscmp\<close>: the sign of the first difference, 0 when the strings are equal.\<close>

fun wcscmp :: "wstring \<Rightarrow> wstring \<Rightarrow> int" where
  "wcscmp [] [] = 0"
| "wcscmp [] (y # ys) = -1"
| "wcscmp (x # xs) [] = 1"
| "wcscmp (x # xs) (y # ys) =
     (if x = y then wcscmp xs ys else if x < y then -1 else 1)"

text \<open>
  \<open>wcstol(s, nullptr, 10)\<close> as the C standard gives it in the C locale: leading white
  space is skipped, one optional sign is read, then the longest run of decimal digits;
  no digits give 0; a value outside \<open>long\<close> (32 bits on Windows) is clamped to
  \<open>LONG_MAX\<close> or \<open>LONG_MIN\<close>.
\<close>

definition LONG_MAX :: int where "LONG_MAX = 2147483647"
definition LONG_MIN :: int where "LONG_MIN = - 2147483648"

definition iswspace :: "wchar_t \<Rightarrow> bool" where
  "iswspace c = (c = 0x20 \<or> (0x09 \<le> c \<and> c \<le> 0x0D))"

definition iswdigit :: "wchar_t \<Rightarrow> bool" where
  "iswdigit c = (0x30 \<le> c \<and> c \<le> 0x39)"

definition digit_value :: "wchar_t \<Rightarrow> int" where
  "digit_value c = uint c - 48"

fun read_digits :: "int \<Rightarrow> wstring \<Rightarrow> int" where
  "read_digits acc [] = acc"
| "read_digits acc (c # cs) =
     (if iswdigit c then read_digits (acc * 10 + digit_value c) cs else acc)"

definition wcstol :: "wstring \<Rightarrow> int" where
  "wcstol s =
     (case dropWhile iswspace s of
        [] \<Rightarrow> 0
      | c # cs \<Rightarrow>
          if c = 0x2D then max LONG_MIN (- read_digits 0 cs)
          else if c = 0x2B then min LONG_MAX (read_digits 0 cs)
          else min LONG_MAX (read_digits 0 (c # cs)))"

subsection \<open>The argument array and the loop\<close>

text \<open>
  \<open>argv\<close> is the block \<open>CommandLineToArgvW\<close> allocates: \<open>argc\<close> pointers, here the list
  of tokens. The block is allocated until \<open>LocalFree\<close> releases it. Reading a freed
  block, reading an index from \<open>argc\<close> on, and freeing twice are undefined behaviour in
  the source; the model stops there with the fault and the index read.
  The loop counter is a \<open>size_t\<close>; it stays below \<open>argc + 3\<close>, so it never wraps,
  and \<open>argc\<close>, the number of tokens, is never negative in the comparison \<open>i < argc\<close>.
  A failing \<open>CommandLineToArgvW\<close> (a null \<open>argv\<close>) is outside the model.
\<close>

datatype block_status = Allocated | Freed

datatype fault = UseAfterFree nat | OutOfBounds nat | DoubleFree

record parse_state =
  glob :: globals
  i :: nat
  argv_status :: block_status
  frees :: nat

definition read_argv :: "wstring list \<Rightarrow> parse_state \<Rightarrow> nat \<Rightarrow> fault + wstring" where
  "read_argv argv s k =
     (if argv_status s = Freed then Inl (UseAfterFree k)
      else if k < length argv then Inr (argv ! k)
      else Inl (OutOfBounds k))"

definition LocalFree :: "parse_state \<Rightarrow> fault + parse_state" where
  "LocalFree s =
     (if argv_status s = Freed then Inl DoubleFree
      else Inr (s\<lparr>argv_status := Freed, frees := frees s + 1\<rparr>))"

text \<open>The first \<open>if\<close> of the loop body: \<open>-w\<close> or \<open>--width\<close>, value read from \<open>argv[++i]\<close>.\<close>

definition width_step :: "wstring list \<Rightarrow> parse_state \<Rightarrow> fault + parse_state" where
  "width_step argv s =
     (case read_argv argv s (i s) of
        Inl f \<Rightarrow> Inl f
      | Inr t \<Rightarrow>
          if wcscmp t (L ''-w'') = 0 \<or> wcscmp t (L ''--width'') = 0 then
            (let s1 = s\<lparr>i := i s + 1\<rparr> in
             case read_argv argv s1 (i s1) of
               Inl f \<Rightarrow> Inl f
             | Inr v \<Rightarrow> Inr (s1\<lparr>glob := (glob s1)\<lparr>g_ClientWidth := of_int (wcstol v)\<rparr>\<rparr>))
          else Inr s)"

text \<open>The second \<open>if\<close>: \<open>-h\<close> or \<open>--height\<close>, on whatever \<open>argv[i]\<close> is by now.\<close>

definition height_step :: "wstring list \<Rightarrow> parse_state \<Rightarrow> fault + parse_state" where
  "height_step argv s =
     (case read_argv argv s (i s) of
        Inl f \<Rightarrow> Inl f
      | Inr t \<Rightarrow>
          if wcscmp t (L ''-h'') = 0 \<or> wcscmp t (L ''--height'') = 0 then
            (let s1 = s\<lparr>i := i s + 1\<rparr> in
             case read_argv argv s1 (i s1) of
               Inl f \<Rightarrow> Inl f
             | Inr v \<Rightarrow> Inr (s1\<lparr>glob := (glob s1)\<lparr>g_ClientHeight := of_int (wcstol v)\<rparr>\<rparr>))
          else Inr s)"

text \<open>The third \<open>if\<close>: \<open>-warp\<close> or \<open>--warp\<close>.\<close>

definition warp_step :: "wstring list \<Rightarrow> parse_state \<Rightarrow> fault + parse_state" where
  "warp_step argv s =
     (case read_argv argv s (i s) of
        Inl f \<Rightarrow> Inl f
      | Inr t \<Rightarrow>
          if wcscmp t (L ''-warp'') = 0 \<or> wcscmp t (L ''--warp'') = 0 then
            Inr (s\<lparr>glob := (glob s)\<lparr>g_UseWarp := True\<rparr>\<rparr>)
          else Inr s)"

text \<open>One pass through the loop body: the three checks, then \<open>LocalFree(argv)\<close>.\<close>

definition loop_body :: "wstring list \<Rightarrow> parse_state \<Rightarrow> fault + parse_state" where
  "loop_body argv s =
     (case width_step argv s of
        Inl f \<Rightarrow> Inl f
      | Inr s1 \<Rightarrow>
          (case height_step argv s1 of
             Inl f \<Rightarrow> Inl f
           | Inr s2 \<Rightarrow>
               (case warp_step argv s2 of
                  Inl f \<Rightarrow> Inl f
                | Inr s3 \<Rightarrow> LocalFree s3)))"

text \<open>
  No step moves \<open>i\<close> backwards; the loop below terminates for that reason.
\<close>

lemma width_step_i: "width_step argv s = Inr s' \<Longrightarrow> i s \<le> i s'"
  by (auto simp: width_step_def Let_def split: sum.splits if_splits)

lemma height_step_i: "height_step argv s = Inr s' \<Longrightarrow> i s \<le> i s'"
  by (auto simp: height_step_def Let_def split: sum.splits if_splits)

lemma warp_step_i: "warp_step argv s = Inr s' \<Longrightarrow> i s' = i s"
  by (auto simp: warp_step_def split: sum.splits if_splits)

lemma LocalFree_i: "LocalFree s = Inr s' \<Longrightarrow> i s' = i s"
  by (auto simp: LocalFree_def split: if_splits)

lemma loop_body_i: "loop_body argv s = Inr s' \<Longrightarrow> i s \<le> i s'"
  unfolding loop_body_def
  by (auto split: sum.splits
           dest!: width_step_i height_step_i warp_step_i LocalFree_i)

text \<open>
  \<open>for (size_t i = 0; i < argc; ++i)\<close>: the body, then \<open>++i\<close>, while \<open>i < argc\<close>.
  A fault in the body ends the run.
\<close>

function parse_loop :: "wstring list \<Rightarrow> parse_state \<Rightarrow> fault + parse_state" where
  "parse_loop argv s =
     (if i s < length argv then
        (case loop_body argv s of
           Inl f \<Rightarrow> Inl f
         | Inr s' \<Rightarrow> parse_loop argv (s'\<lparr>i := i s' + 1\<rparr>))
      else Inr s)"
  by pat_completeness auto
termination
  by (relation "measure (\<lambda>(argv, s). length argv - i s)")
     (auto dest: loop_body_i)

declare parse_loop.simps [simp del]

text \<open>
  The function itself: \<open>argv\<close> is what \<open>CommandLineToArgvW\<close> returned, \<open>g\<close> the globals
  on entry. It returns the globals on exit, or the fault.
\<close>

definition start_state :: "globals \<Rightarrow> parse_state" where
  "start_state g = \<lparr>glob = g, i = 0, argv_status = Allocated, frees = 0\<rparr>"

definition ParseCommandLineArguments :: "wstring list \<Rightarrow> globals \<Rightarrow> fault + parse_state" where
  "ParseCommandLineArguments argv g = parse_loop argv (start_state g)"


section \<open>main.cpp: RegisterWindowClass\<close>

text \<open>
  Handles and resource names are pointer-sized values, \<open>ATOM\<close> is a 16-bit unsigned
  value. The window procedure is only ever taken by address, so it is a name.
\<close>

type_synonym HANDLE = "64 word"
type_synonym ATOM = "16 word"

datatype wndproc = WndProc

record WNDCLASSEXW =
  cbSize :: "32 word"
  style :: "32 word"
  lpfnWndProc :: wndproc
  cbClsExtra :: "32 word"
  cbWndExtra :: "32 word"
  hInstance :: HANDLE
  hIcon :: HANDLE
  hCursor :: HANDLE
  hbrBackground :: HANDLE
  lpszMenuName :: "wstring option"
  lpszClassName :: wstring
  hIconSm :: HANDLE

definition CS_VREDRAW :: "32 word" where "CS_VREDRAW = 0x0001"
definition CS_HREDRAW :: "32 word" where "CS_HREDRAW = 0x0002"
definition COLOR_WINDOW :: HANDLE where "COLOR_WINDOW = 5"
definition IDC_ARROW :: HANDLE where "IDC_ARROW = 32512"
definition NULL :: HANDLE where "NULL = 0"

text \<open>
  What the operating system and the build answer: the handles \<open>LoadIcon\<close> and
  \<open>LoadCursor\<close> return, the atom \<open>RegisterClassExW\<close> returns for a class,
  \<open>sizeof(WNDCLASSEX)\<close>, and whether \<open>assert\<close> is compiled in (\<open>NDEBUG\<close> not defined).
\<close>

record reg_env =
  LoadIcon :: "HANDLE \<Rightarrow> HANDLE \<Rightarrow> HANDLE"
  LoadCursor :: "HANDLE \<Rightarrow> HANDLE \<Rightarrow> HANDLE"
  RegisterClassExW :: "WNDCLASSEXW \<Rightarrow> ATOM"
  sizeof_WNDCLASSEX :: "32 word"
  assert_enabled :: bool

text \<open>
  The state the function touches: the function-local \<open>static ATOM atom\<close>
  (\<open>None\<close> until its initialiser has run) and the \<open>RegisterClassExW\<close> calls made so far.
\<close>

record reg_state =
  atom :: "ATOM option"
  register_calls :: "WNDCLASSEXW list"

definition initial_reg_state :: reg_state where
  "initial_reg_state = \<lparr>atom = None, register_calls = []\<rparr>"

datatype abort = AssertionFailed

definition window_class :: "reg_env \<Rightarrow> HANDLE \<Rightarrow> wstring \<Rightarrow> WNDCLASSEXW" where
  "window_class env hInst windowClassName =
     \<lparr>cbSize = sizeof_WNDCLASSEX env,
      style = CS_HREDRAW OR CS_VREDRAW,
      lpfnWndProc = WndProc,
      cbClsExtra = 0,
      cbWndExtra = 0,
      hInstance = hInst,
      hIcon = LoadIcon env hInst NULL,
      hCursor = LoadCursor env hInst IDC_ARROW,
      hbrBackground = COLOR_WINDOW + 1,
      lpszMenuName = None,
      lpszClassName = windowClassName,
      hIconSm = LoadIcon env hInst NULL\<rparr>"

text \<open>
  \<open>static ATOM atom = ::RegisterClassExW(&windowClass);\<close> runs its initialiser the first
  time control passes the declaration, and never again. \<open>assert(atom > 0)\<close> follows on
  every call.
\<close>

definition RegisterWindowClass ::
  "reg_env \<Rightarrow> HANDLE \<Rightarrow> wstring \<Rightarrow> reg_state \<Rightarrow> abort + reg_state" where
  "RegisterWindowClass env hInst windowClassName s =
     (let windowClass = window_class env hInst windowClassName;
          (a, s') = (case atom s of
                       None \<Rightarrow>
                         (let r = RegisterClassExW env windowClass
                          in (r, \<lparr>atom = Some r,
                                  register_calls = register_calls s @ [windowClass]\<rparr>))
                     | Some r \<Rightarrow> (r, s))
      in if assert_enabled env \<and> \<not> 0 < a then Inl AssertionFailed else Inr s')"


section \<open>main.cpp: CreateWindow\<close>

text \<open>
  \<open>LONG\<close> and \<open>int\<close> are 32-bit signed values: words read with \<open>sint\<close>, arithmetic
  wrapping as the compiler's does. \<open>/\<close> on \<open>int\<close> truncates towards zero, and
  \<open>std::max<int>(a, b)\<close> is \<open>(a < b) ? b : a\<close>. \<open>static_cast<LONG>\<close> of a
  \<open>uint32_t\<close> keeps its 32 bits.
\<close>

type_synonym LONG = "32 word"

record RECT =
  left :: LONG
  top_edge :: LONG
  right :: LONG
  bottom :: LONG

definition int_div :: "32 word \<Rightarrow> 32 word \<Rightarrow> 32 word" where
  "int_div a b = word_of_int (sint a sdiv sint b)"

definition std_max :: "32 word \<Rightarrow> 32 word \<Rightarrow> 32 word" where
  "std_max a b = (if sint a < sint b then b else a)"

definition SM_CXSCREEN :: nat where "SM_CXSCREEN = 0"
definition SM_CYSCREEN :: nat where "SM_CYSCREEN = 1"
definition WS_OVERLAPPEDWINDOW :: "32 word" where "WS_OVERLAPPEDWINDOW = 0x00CF0000"

text \<open>The extents of the window frame around the client area, for one window style.\<close>

record chrome =
  frame_left :: LONG
  frame_top :: LONG
  frame_right :: LONG
  frame_bottom :: LONG

text \<open>
  What the operating system answers: the system metrics, the frame extents of a style
  (with or without a menu), and the handle \<open>CreateWindowExW\<close> returns.
\<close>

record CreateWindowExW_args =
  dwExStyle :: "32 word"
  lpClassName :: wstring
  lpWindowName :: wstring
  dwStyle :: "32 word"
  X :: "32 word"
  Y :: "32 word"
  nWidth :: "32 word"
  nHeight :: "32 word"
  hWndParent :: HANDLE
  hMenu :: HANDLE
  hInstance_arg :: HANDLE
  lpParam :: HANDLE

record win_env =
  GetSystemMetrics :: "nat \<Rightarrow> 32 word"
  frame_of_style :: "32 word \<Rightarrow> bool \<Rightarrow> chrome"
  CreateWindowExW :: "CreateWindowExW_args \<Rightarrow> HANDLE"

text \<open>
  Modelled from the spec: \<open>AdjustWindowRect\<close> is a Win32 call, absent from the sources.
  The spec has it compute "a window rectangle large enough to yield the requested client
  area after accounting for window chrome": the client rectangle grown on each side by
  the frame extent of the style.
\<close>

definition AdjustWindowRect :: "win_env \<Rightarrow> RECT \<Rightarrow> 32 word \<Rightarrow> bool \<Rightarrow> RECT" where
  "AdjustWindowRect env r dwStyle' bMenu =
     (let c = frame_of_style env dwStyle' bMenu in
      \<lparr>left = left r - frame_left c,
       top_edge = top_edge r - frame_top c,
       right = right r + frame_right c,
       bottom = bottom r + frame_bottom c\<rparr>)"

text \<open>
  How a call of a function with a non-void return type ends: by a \<open>return\<close> statement
  with its value, by an exception, or by control reaching the closing brace with no
  \<open>return\<close> (for which C++ defines no value).
\<close>

datatype 'a outcome = Returned 'a | Threw cpp_exception | FellOffEnd

text \<open>
  The locals of \<open>CreateWindow\<close> in the order the body computes them, the call it makes,
  and how it ends.
\<close>

record CreateWindow_run =
  windowRect :: RECT
  windowWidth :: "32 word"
  windowHeight :: "32 word"
  windowX :: "32 word"
  windowY :: "32 word"
  create_call :: CreateWindowExW_args
  hWnd :: HANDLE
  ending :: "HANDLE outcome"

definition CreateWindow ::
  "win_env \<Rightarrow> wstring \<Rightarrow> HANDLE \<Rightarrow> wstring \<Rightarrow> 32 word \<Rightarrow> 32 word \<Rightarrow> CreateWindow_run" where
  "CreateWindow env windowClassName hInst windowTitle width height =
     (let screenWidth = GetSystemMetrics env SM_CXSCREEN;
          screenHeight = GetSystemMetrics env SM_CYSCREEN;
          rect0 = \<lparr>left = 0, top_edge = 0, right = width, bottom = height\<rparr>;
          rect1 = AdjustWindowRect env rect0 WS_OVERLAPPEDWINDOW False;
          wWidth = right rect1 - left rect1;
          wHeight = bottom rect1 - top_edge rect1;
          wX = std_max 0 (int_div (screenWidth - wWidth) 2);
          wY = std_max 0 (int_div (screenHeight - wHeight) 2);
          args = \<lparr>dwExStyle = 0,
                  lpClassName = windowClassName,
                  lpWindowName = windowTitle,
                  dwStyle = WS_OVERLAPPEDWINDOW,
                  X = wX, Y = wY, nWidth = wWidth, nHeight = wHeight,
                  hWndParent = NULL, hMenu = NULL,
                  hInstance_arg = hInst, lpParam = NULL\<rparr>
      in \<lparr>windowRect = rect1,
          windowWidth = wWidth, windowHeight = wHeight,
          windowX = wX, windowY = wY,
          create_call = args,
          hWnd = CreateWindowExW env args,
          ending = FellOffEnd\<rparr>)"


section \<open>main.cpp: GetAdapter\<close>

text \<open>
  The DXGI calls a run can make. \<open>EnumAdapters1\<close> is the factory's enumeration of
  physical adapters by index.
\<close>

datatype dxgi_call =
    CreateDXGIFactory2 "32 word"
  | EnumWarpAdapter
  | As_IDXGIAdapter4
  | EnumAdapters1 nat

definition DXGI_CREATE_FACTORY_DEBUG :: "32 word" where
  "DXGI_CREATE_FACTORY_DEBUG = 0x01"

text \<open>
  The result codes the calls return, and whether \<open>_DEBUG\<close> is defined.
\<close>

record dxgi_env =
  debug_build :: bool
  CreateDXGIFactory2_hr :: "32 word \<Rightarrow> HRESULT"
  EnumWarpAdapter_hr :: HRESULT
  As_hr :: HRESULT

record GetAdapter_run =
  calls :: "dxgi_call list"
  result :: "HANDLE outcome"

definition GetAdapter :: "dxgi_env \<Rightarrow> bool \<Rightarrow> GetAdapter_run" where
  "GetAdapter env useWarp =
     (let createFactoryFlags = (if debug_build env then DXGI_CREATE_FACTORY_DEBUG else 0);
          c1 = [CreateDXGIFactory2 createFactoryFlags]
      in case ThrowIfFailed (CreateDXGIFactory2_hr env createFactoryFlags) of
           Inl e \<Rightarrow> \<lparr>calls = c1, result = Threw e\<rparr>
         | Inr _ \<Rightarrow>
             if useWarp then
               (let c2 = c1 @ [EnumWarpAdapter]
                in case ThrowIfFailed (EnumWarpAdapter_hr env) of
                     Inl e \<Rightarrow> \<lparr>calls = c2, result = Threw e\<rparr>
                   | Inr _ \<Rightarrow>
                       (let c3 = c2 @ [As_IDXGIAdapter4]
                        in case ThrowIfFailed (As_hr env) of
                             Inl e \<Rightarrow> \<lparr>calls = c3, result = Threw e\<rparr>
                           | Inr _ \<Rightarrow> \<lparr>calls = c3, result = FellOffEnd\<rparr>))
             else \<lparr>calls = c1, result = FellOffEnd\<rparr>)"



section \<open>Example environments\<close>

text \<open>
  A 1920 by 1080 display whose overlapped-window frame is 8 pixels on the left, right and
  bottom and 31 on top; DXGI calls that all succeed in a release build; a registration
  that succeeds, with \<open>assert\<close> compiled in.
\<close>

definition example_win_env :: win_env where
  "example_win_env =
     \<lparr>GetSystemMetrics = (\<lambda>m. if m = SM_CXSCREEN then 1920 else 1080),
      frame_of_style = (\<lambda>st menu. \<lparr>frame_left = 8, frame_top = 31,
                                    frame_right = 8, frame_bottom = 8\<rparr>),
      CreateWindowExW = (\<lambda>a. 0x000A0B0C)\<rparr>"

definition example_dxgi_env :: dxgi_env where
  "example_dxgi_env =
     \<lparr>debug_build = False, CreateDXGIFactory2_hr = (\<lambda>f. 0),
      EnumWarpAdapter_hr = 0, As_hr = 0\<rparr>"

definition example_reg_env :: reg_env where
  "example_reg_env =
     \<lparr>LoadIcon = (\<lambda>h n. 0x10), LoadCursor = (\<lambda>h n. 0x20),
      RegisterClassExW = (\<lambda>wc. 0xC001), sizeof_WNDCLASSEX = 80,
      assert_enabled = True\<rparr>"

section \<open>Properties of ThrowIfFailed\<close>

text \<open>
  Claim C4. For every \<open>HRESULT\<close>, \<open>ThrowIfFailed\<close> throws exactly when \<open>FAILED(hr)\<close>
  holds, that is when \<open>hr\<close> is not a success code; what it throws is the same
  \<open>std::exception\<close> for every failing code, so it carries neither the code nor a
  message; on a success code it returns normally.
\<close>

theorem ThrowIfFailed_generic:
  "((\<exists>e. ThrowIfFailed hr = Inl e) \<longleftrightarrow> FAILED hr)
   \<and> (FAILED hr \<longleftrightarrow> \<not> SUCCEEDED hr)
   \<and> (FAILED hr \<longrightarrow> FAILED hr' \<longrightarrow> ThrowIfFailed hr = ThrowIfFailed hr')
   \<and> (SUCCEEDED hr \<longrightarrow> ThrowIfFailed hr = Inr ())"
  by (auto simp: ThrowIfFailed_def FAILED_def SUCCEEDED_def)

text \<open>
  At \<open>E_FAIL\<close> (\<open>0x80004005\<close>) and \<open>DXGI_ERROR_UNSUPPORTED\<close> (\<open>0x887A0004\<close>) the same
  exception is thrown; at \<open>S_OK\<close> (\<open>0\<close>) the call returns.
\<close>

theorem ThrowIfFailed_generic_witness:
  "FAILED 0x80004005 \<and> FAILED 0x887A0004
   \<and> ThrowIfFailed 0x80004005 = ThrowIfFailed 0x887A0004
   \<and> ThrowIfFailed 0x80004005 = Inl std_exception
   \<and> SUCCEEDED 0 \<and> ThrowIfFailed 0 = Inr ()"
  using ThrowIfFailed_generic [of "0x80004005" "0x887A0004"] ThrowIfFailed_generic [of 0 0]
  by (simp add: FAILED_def SUCCEEDED_def ThrowIfFailed_def)


section \<open>Properties of ParseCommandLineArguments\<close>

subsection \<open>Tokens\<close>

lemma wcscmp_eq_0_iff: "wcscmp a b = 0 \<longleftrightarrow> a = b"
  by (induction a b rule: wcscmp.induct) auto

lemmas parser_defs = ParseCommandLineArguments_def start_state_def initial_globals_def
  loop_body_def width_step_def height_step_def warp_step_def read_argv_def LocalFree_def

lemmas token_defs = wcscmp_eq_0_iff L_def wcstol_def iswspace_def iswdigit_def digit_value_def
  LONG_MAX_def LONG_MIN_def

lemma wcstol_examples:
  "wcstol (L ''800'') = 800" "wcstol (L ''600'') = 600" "wcstol (L ''-warp'') = 0"
  by (simp_all add: token_defs)

subsection \<open>What one pass of the loop does to the argument block\<close>

lemma loop_body_frees:
  "loop_body argv s = Inr s' \<Longrightarrow> argv_status s' = Freed \<and> frees s' = frees s + 1"
  by (auto simp: loop_body_def width_step_def height_step_def warp_step_def read_argv_def
        LocalFree_def Let_def split: sum.splits if_splits)

lemma loop_body_on_freed:
  "argv_status s = Freed \<Longrightarrow> loop_body argv s = Inl (UseAfterFree (i s))"
  by (simp add: loop_body_def width_step_def read_argv_def)

text \<open>If the first pass leaves a token unread, the second pass reads the freed block.\<close>

lemma second_pass_faults:
  assumes "loop_body argv (start_state g) = Inr s1" "i s1 + 1 < length argv"
  shows "ParseCommandLineArguments argv g = Inl (UseAfterFree (i s1 + 1))"
proof -
  let ?s2 = "s1\<lparr>i := i s1 + 1\<rparr>"
  have "argv_status ?s2 = Freed"
    using loop_body_frees [OF assms(1)] by simp
  then have "loop_body argv ?s2 = Inl (UseAfterFree (i s1 + 1))"
    using loop_body_on_freed [of ?s2 argv] by simp
  then have "parse_loop argv ?s2 = Inl (UseAfterFree (i s1 + 1))"
    using assms(2) by (subst parse_loop.simps) simp
  moreover have "i (start_state g) < length argv"
    using assms(2) by (auto simp: start_state_def)
  ultimately show ?thesis
    unfolding ParseCommandLineArguments_def
    using assms(1) by (subst parse_loop.simps) simp
qed

lemma first_pass_plain_token:
  assumes "argv \<noteq> []" "hd argv \<notin> {L ''-w'', L ''--width'', L ''-h'', L ''--height''}"
  shows "\<exists>s1. loop_body argv (start_state g) = Inr s1 \<and> i s1 = 0"
  using assms
  by (cases argv)
     (auto simp: loop_body_def width_step_def height_step_def warp_step_def read_argv_def
        LocalFree_def start_state_def wcscmp_eq_0_iff)

text \<open>A run that returns has made at most one pass.\<close>

lemma at_most_one_pass:
  assumes "ParseCommandLineArguments argv g = Inr s'"
  shows "frees s' \<le> 1"
proof (cases "argv = []")
  case True
  then show ?thesis
    using assms by (auto simp: ParseCommandLineArguments_def parse_loop.simps start_state_def)
next
  case False
  then have lt: "i (start_state g) < length argv"
    by (simp add: start_state_def)
  show ?thesis
  proof (cases "loop_body argv (start_state g)")
    case (Inl f)
    then show ?thesis
      using assms lt
      by (simp add: ParseCommandLineArguments_def parse_loop.simps [of argv "start_state g"])
  next
    case (Inr s1)
    show ?thesis
    proof (cases "i s1 + 1 < length argv")
      case True
      then show ?thesis using second_pass_faults [OF Inr] assms by simp
    next
      case False
      then have "parse_loop argv (s1\<lparr>i := i s1 + 1\<rparr>) = Inr (s1\<lparr>i := i s1 + 1\<rparr>)"
        by (subst parse_loop.simps) simp
      then have "s' = s1\<lparr>i := i s1 + 1\<rparr>"
        using assms lt Inr
        by (simp add: ParseCommandLineArguments_def parse_loop.simps [of argv "start_state g"])
      then show ?thesis
        using loop_body_frees [OF Inr] by (simp add: start_state_def)
    qed
  qed
qed

subsection \<open>The parts of the documented behaviour that the code has\<close>

text \<open>
  With no argument the loop body never runs and the globals keep their values; a single
  token that is no flag leaves them unchanged too. The usual command line, program name
  first, already reaches the freed block on its second token.
\<close>

lemma parse_no_arguments:
  "ParseCommandLineArguments [] g = Inr (start_state g)"
  by (simp add: ParseCommandLineArguments_def parse_loop.simps start_state_def)

lemma parse_no_arguments_defaults:
  "ParseCommandLineArguments [] initial_globals =
     Inr \<lparr>glob = \<lparr>g_UseWarp = False, g_ClientWidth = 1280, g_ClientHeight = 720\<rparr>,
          i = 0, argv_status = Allocated, frees = 0\<rparr>"
  by (simp add: parse_no_arguments start_state_def initial_globals_def)

lemma parse_one_unrecognized:
  assumes "t \<notin> {L ''-w'', L ''--width'', L ''-h'', L ''--height'', L ''-warp'', L ''--warp''}"
  shows "ParseCommandLineArguments [t] g =
           Inr \<lparr>glob = g, i = 1, argv_status = Freed, frees = 1\<rparr>"
  using assms
  by (simp add: ParseCommandLineArguments_def start_state_def parse_loop.simps loop_body_def
        width_step_def height_step_def warp_step_def read_argv_def LocalFree_def wcscmp_eq_0_iff)

lemma parse_after_program_name:
  assumes "argv \<noteq> []"
  shows "ParseCommandLineArguments (L ''DirectX12Intro.exe'' # argv) g = Inl (UseAfterFree 1)"
proof -
  let ?args = "L ''DirectX12Intro.exe'' # argv"
  have "hd ?args \<notin> {L ''-w'', L ''--width'', L ''-h'', L ''--height''}"
    by (simp add: L_def)
  with first_pass_plain_token [of ?args g] obtain s1
    where "loop_body ?args (start_state g) = Inr s1" "i s1 = 0" by blast
  then show ?thesis
    using second_pass_faults [of ?args g s1] assms by simp
qed

subsection \<open>The documented example\<close>

text \<open>
  Claim C1. Parsing \<open>-w 800 -h 600 -warp\<close> should give width 800, height 600 and
  \<open>g_UseWarp = true\<close>. The code does not: the first pass reads \<open>-w\<close> and \<open>800\<close>, sets the
  width and frees \<open>argv\<close>; the second pass then reads \<open>argv[2]\<close> from the freed block, with
  the height still 720 and \<open>g_UseWarp\<close> still false.
\<close>

theorem documented_example_reads_freed_argv:
  "loop_body [L ''-w'', L ''800'', L ''-h'', L ''600'', L ''-warp''] (start_state initial_globals) =
     Inr \<lparr>glob = \<lparr>g_UseWarp = False, g_ClientWidth = 800, g_ClientHeight = 720\<rparr>,
          i = 1, argv_status = Freed, frees = 1\<rparr>
   \<and> ParseCommandLineArguments [L ''-w'', L ''800'', L ''-h'', L ''600'', L ''-warp'']
        initial_globals = Inl (UseAfterFree 2)"
  by (simp add: parser_defs parse_loop.simps token_defs)

subsection \<open>Where the block is freed\<close>

text \<open>
  Claim C2, as stated: \<open>LocalFree\<close> runs once per token, and every argument list of two or
  more tokens has a second pass that reads the freed block. The list \<open>-w 800\<close> refutes it:
  two tokens, one pass, one \<open>LocalFree\<close>, and the run returns with width 800 without
  touching the block again.
\<close>

theorem width_and_value_one_pass:
  "length [L ''-w'', L ''800''] = 2
   \<and> ParseCommandLineArguments [L ''-w'', L ''800''] initial_globals =
       Inr \<lparr>glob = \<lparr>g_UseWarp = False, g_ClientWidth = 800, g_ClientHeight = 720\<rparr>,
            i = 2, argv_status = Freed, frees = 1\<rparr>"
  by (simp add: parser_defs parse_loop.simps token_defs)

text \<open>
  Claim C2, amended. \<open>LocalFree(argv)\<close> runs at the end of the loop body, once per pass
  (a pass that meets a value-taking flag consumes the following token too), not once
  after the loop. A pass entered with the block freed reads the freed \<open>argv[i]\<close> at once.
  So whenever the first pass leaves a token unread the second pass reads freed memory;
  that is the case for every list of two or more tokens whose first token is not
  \<open>-w\<close>, \<open>--width\<close>, \<open>-h\<close> or \<open>--height\<close>. A run that returns has made at most one pass.
\<close>

theorem LocalFree_inside_loop:
  "(loop_body argv s = Inr s' \<longrightarrow> argv_status s' = Freed \<and> frees s' = frees s + 1)
   \<and> (argv_status s = Freed \<and> i s < length argv \<longrightarrow> loop_body argv s = Inl (UseAfterFree (i s)))
   \<and> (loop_body argv (start_state g) = Inr s1 \<and> i s1 + 1 < length argv
        \<longrightarrow> ParseCommandLineArguments argv g = Inl (UseAfterFree (i s1 + 1)))
   \<and> (2 \<le> length argv \<and> hd argv \<notin> {L ''-w'', L ''--width'', L ''-h'', L ''--height''}
        \<longrightarrow> ParseCommandLineArguments argv g = Inl (UseAfterFree 1))
   \<and> (ParseCommandLineArguments argv g = Inr s' \<longrightarrow> frees s' \<le> 1)"
proof (intro conjI impI)
  assume "2 \<le> length argv \<and> hd argv \<notin> {L ''-w'', L ''--width'', L ''-h'', L ''--height''}"
  then have ne: "argv \<noteq> []" and len: "1 < length argv"
    and plain: "hd argv \<notin> {L ''-w'', L ''--width'', L ''-h'', L ''--height''}"
    by auto
  from first_pass_plain_token [OF ne plain] obtain s1
    where "loop_body argv (start_state g) = Inr s1" "i s1 = 0" by blast
  then show "ParseCommandLineArguments argv g = Inl (UseAfterFree 1)"
    using second_pass_faults [of argv g s1] len by simp
next
  assume "loop_body argv (start_state g) = Inr s1 \<and> i s1 + 1 < length argv"
  then show "ParseCommandLineArguments argv g = Inl (UseAfterFree (i s1 + 1))"
    using second_pass_faults [of argv g s1] by simp
qed (auto dest: loop_body_frees at_most_one_pass intro: loop_body_on_freed)

text \<open>On \<open>foo bar\<close>: the first pass frees the block, the second reads \<open>argv[1]\<close> from it.\<close>

theorem LocalFree_inside_loop_witness:
  "loop_body [L ''foo'', L ''bar''] (start_state initial_globals) =
     Inr \<lparr>glob = initial_globals, i = 0, argv_status = Freed, frees = 1\<rparr>
   \<and> loop_body [L ''foo'', L ''bar'']
        \<lparr>glob = initial_globals, i = 1, argv_status = Freed, frees = 1\<rparr> = Inl (UseAfterFree 1)
   \<and> ParseCommandLineArguments [L ''foo'', L ''bar''] initial_globals = Inl (UseAfterFree 1)
   \<and> ParseCommandLineArguments [L ''-w'', L ''800''] initial_globals =
       Inr \<lparr>glob = \<lparr>g_UseWarp = False, g_ClientWidth = 800, g_ClientHeight = 720\<rparr>,
            i = 2, argv_status = Freed, frees = 1\<rparr>
   \<and> frees \<lparr>glob = \<lparr>g_UseWarp = False, g_ClientWidth = 800, g_ClientHeight = 720\<rparr>,
            i = 2, argv_status = Freed, frees = 1\<rparr> \<le> 1"
proof -
  let ?argv = "[L ''foo'', L ''bar'']"
  let ?s0 = "start_state initial_globals"
  let ?s1 = "\<lparr>glob = initial_globals, i = 0, argv_status = Freed, frees = 1\<rparr>"
  let ?s2 = "\<lparr>glob = \<lparr>g_UseWarp = False, g_ClientWidth = 800, g_ClientHeight = 720\<rparr>,
            i = 2, argv_status = Freed, frees = 1\<rparr>"
  have first: "loop_body ?argv ?s0 = Inr ?s1"
    by (simp add: parser_defs token_defs)
  have plain: "hd ?argv \<notin> {L ''-w'', L ''--width'', L ''-h'', L ''--height''}"
    by (simp add: L_def)
  have pair: "ParseCommandLineArguments [L ''-w'', L ''800''] initial_globals = Inr ?s2"
    by (simp add: parser_defs parse_loop.simps token_defs)
  have "ParseCommandLineArguments ?argv initial_globals = Inl (UseAfterFree 1)"
    and "loop_body ?argv (?s1\<lparr>i := 1\<rparr>) = Inl (UseAfterFree 1)"
    using LocalFree_inside_loop [of ?argv "?s1\<lparr>i := 1\<rparr>" ?s1 initial_globals ?s1] first plain
    by simp_all
  moreover have "frees ?s2 \<le> 1"
    using LocalFree_inside_loop [of "[L ''-w'', L ''800'']" ?s0 ?s2 initial_globals ?s1] pair
    by blast
  ultimately show ?thesis
    using first pair by simp
qed

subsection \<open>A value-taking flag with no value\<close>

text \<open>
  Claim C3. When the last token is \<open>-w\<close>, \<open>--width\<close>, \<open>-h\<close> or \<open>--height\<close> the parser should
  not read \<open>argv\<close> at an index from \<open>argc\<close> on. The code does: with the single token
  \<open>-w\<close> (\<open>argc = 1\<close>) it reads \<open>argv[1]\<close>, and likewise for the other three flags; with
  \<open>-w -h\<close> (\<open>argc = 2\<close>) it reads \<open>argv[2]\<close>.
\<close>

theorem trailing_value_flag_reads_past_end:
  "ParseCommandLineArguments [L ''-w''] g = Inl (OutOfBounds 1)
   \<and> ParseCommandLineArguments [L ''--width''] g = Inl (OutOfBounds 1)
   \<and> ParseCommandLineArguments [L ''-h''] g = Inl (OutOfBounds 1)
   \<and> ParseCommandLineArguments [L ''--height''] g = Inl (OutOfBounds 1)
   \<and> ParseCommandLineArguments [L ''-w'', L ''-h''] g = Inl (OutOfBounds 2)"
  by (simp add: ParseCommandLineArguments_def start_state_def parse_loop.simps loop_body_def
        width_step_def height_step_def warp_step_def read_argv_def LocalFree_def token_defs)

subsection \<open>Independent checks in one pass\<close>

text \<open>
  Claim C9. The three checks are separate \<open>if\<close> statements, so after a value-taking flag
  has taken \<open>argv[++i]\<close> as its value, the later checks of the same pass compare that value
  token. After \<open>-w\<close> or \<open>--width\<close>: if the value token is \<open>-warp\<close> or \<open>--warp\<close> the pass
  sets the width to its conversion and \<open>g_UseWarp\<close> to true; if it is \<open>-h\<close> or \<open>--height\<close>
  the pass goes on to take the next token as the height, and if that one is \<open>-warp\<close> or
  \<open>--warp\<close> it sets \<open>g_UseWarp\<close> as well. After \<open>-h\<close> or \<open>--height\<close>: if the value token
  is \<open>-warp\<close> or \<open>--warp\<close> the pass sets the height to its conversion and \<open>g_UseWarp\<close>
  to true. \<open>wcstol\<close> of \<open>-warp\<close> is 0; parsing \<open>-w -warp\<close> gives width 0 and
  \<open>g_UseWarp = true\<close> in a single pass, and parsing \<open>-h -warp\<close> gives height 0 and
  \<open>g_UseWarp = true\<close> in a single pass.
\<close>

theorem value_token_is_rechecked:
  "(argv_status s = Allocated \<and> i s + 1 < length argv
      \<and> argv ! i s \<in> {L ''-w'', L ''--width''} \<and> argv ! (i s + 1) \<in> {L ''-warp'', L ''--warp''}
     \<longrightarrow> loop_body argv s =
           Inr (s\<lparr>i := i s + 1,
                  glob := (glob s)\<lparr>g_ClientWidth := of_int (wcstol (argv ! (i s + 1))),
                                   g_UseWarp := True\<rparr>,
                  argv_status := Freed, frees := frees s + 1\<rparr>))
   \<and> (argv_status s = Allocated \<and> i s + 2 < length argv
      \<and> argv ! i s \<in> {L ''-w'', L ''--width''} \<and> argv ! (i s + 1) \<in> {L ''-h'', L ''--height''}
     \<longrightarrow> (\<exists>s'. loop_body argv s = Inr s' \<and> i s' = i s + 2
            \<and> g_ClientWidth (glob s') = of_int (wcstol (argv ! (i s + 1)))
            \<and> g_ClientHeight (glob s') = of_int (wcstol (argv ! (i s + 2)))))
   \<and> wcstol (L ''-warp'') = 0
   \<and> ParseCommandLineArguments [L ''-w'', L ''-warp''] initial_globals =
       Inr \<lparr>glob = \<lparr>g_UseWarp = True, g_ClientWidth = 0, g_ClientHeight = 720\<rparr>,
            i = 2, argv_status = Freed, frees = 1\<rparr>
   \<and> (argv_status s = Allocated \<and> i s + 1 < length argv
      \<and> argv ! i s \<in> {L ''-h'', L ''--height''} \<and> argv ! (i s + 1) \<in> {L ''-warp'', L ''--warp''}
     \<longrightarrow> loop_body argv s =
           Inr (s\<lparr>i := i s + 1,
                  glob := (glob s)\<lparr>g_ClientHeight := of_int (wcstol (argv ! (i s + 1))),
                                   g_UseWarp := True\<rparr>,
                  argv_status := Freed, frees := frees s + 1\<rparr>))
   \<and> (argv_status s = Allocated \<and> i s + 2 < length argv
      \<and> argv ! i s \<in> {L ''-w'', L ''--width''} \<and> argv ! (i s + 1) \<in> {L ''-h'', L ''--height''}
      \<and> argv ! (i s + 2) \<in> {L ''-warp'', L ''--warp''}
     \<longrightarrow> loop_body argv s =
           Inr (s\<lparr>i := i s + 2,
                  glob := (glob s)\<lparr>g_ClientWidth := of_int (wcstol (argv ! (i s + 1))),
                                   g_ClientHeight := of_int (wcstol (argv ! (i s + 2))),
                                   g_UseWarp := True\<rparr>,
                  argv_status := Freed, frees := frees s + 1\<rparr>))
   \<and> ParseCommandLineArguments [L ''-h'', L ''-warp''] initial_globals =
       Inr \<lparr>glob = \<lparr>g_UseWarp = True, g_ClientWidth = 1280, g_ClientHeight = 0\<rparr>,
            i = 2, argv_status = Freed, frees = 1\<rparr>"
proof (intro conjI impI)
  show "wcstol (L ''-warp'') = 0"
    by (simp add: token_defs)
  show "ParseCommandLineArguments [L ''-w'', L ''-warp''] initial_globals =
       Inr \<lparr>glob = \<lparr>g_UseWarp = True, g_ClientWidth = 0, g_ClientHeight = 720\<rparr>,
            i = 2, argv_status = Freed, frees = 1\<rparr>"
    by (simp add: parser_defs parse_loop.simps token_defs)
  show "ParseCommandLineArguments [L ''-h'', L ''-warp''] initial_globals =
       Inr \<lparr>glob = \<lparr>g_UseWarp = True, g_ClientWidth = 1280, g_ClientHeight = 0\<rparr>,
            i = 2, argv_status = Freed, frees = 1\<rparr>"
    by (simp add: parser_defs parse_loop.simps token_defs)
next
  assume "argv_status s = Allocated \<and> i s + 1 < length argv
      \<and> argv ! i s \<in> {L ''-w'', L ''--width''} \<and> argv ! (i s + 1) \<in> {L ''-warp'', L ''--warp''}"
  then show "loop_body argv s =
           Inr (s\<lparr>i := i s + 1,
                  glob := (glob s)\<lparr>g_ClientWidth := of_int (wcstol (argv ! (i s + 1))),
                                   g_UseWarp := True\<rparr>,
                  argv_status := Freed, frees := frees s + 1\<rparr>)"
    by (auto simp: loop_body_def width_step_def height_step_def warp_step_def read_argv_def
        LocalFree_def Let_def wcscmp_eq_0_iff L_def)
next
  assume "argv_status s = Allocated \<and> i s + 2 < length argv
      \<and> argv ! i s \<in> {L ''-w'', L ''--width''} \<and> argv ! (i s + 1) \<in> {L ''-h'', L ''--height''}"
  then show "\<exists>s'. loop_body argv s = Inr s' \<and> i s' = i s + 2
            \<and> g_ClientWidth (glob s') = of_int (wcstol (argv ! (i s + 1)))
            \<and> g_ClientHeight (glob s') = of_int (wcstol (argv ! (i s + 2)))"
    by (auto simp: loop_body_def width_step_def height_step_def warp_step_def read_argv_def
        LocalFree_def Let_def wcscmp_eq_0_iff L_def)
next
  assume "argv_status s = Allocated \<and> i s + 1 < length argv
      \<and> argv ! i s \<in> {L ''-h'', L ''--height''} \<and> argv ! (i s + 1) \<in> {L ''-warp'', L ''--warp''}"
  then show "loop_body argv s =
           Inr (s\<lparr>i := i s + 1,
                  glob := (glob s)\<lparr>g_ClientHeight := of_int (wcstol (argv ! (i s + 1))),
                                   g_UseWarp := True\<rparr>,
                  argv_status := Freed, frees := frees s + 1\<rparr>)"
    by (auto simp: loop_body_def width_step_def height_step_def warp_step_def read_argv_def
        LocalFree_def Let_def wcscmp_eq_0_iff L_def)
next
  assume "argv_status s = Allocated \<and> i s + 2 < length argv
      \<and> argv ! i s \<in> {L ''-w'', L ''--width''} \<and> argv ! (i s + 1) \<in> {L ''-h'', L ''--height''}
      \<and> argv ! (i s + 2) \<in> {L ''-warp'', L ''--warp''}"
  then show "loop_body argv s =
           Inr (s\<lparr>i := i s + 2,
                  glob := (glob s)\<lparr>g_ClientWidth := of_int (wcstol (argv ! (i s + 1))),
                                   g_ClientHeight := of_int (wcstol (argv ! (i s + 2))),
                                   g_UseWarp := True\<rparr>,
                  argv_status := Freed, frees := frees s + 1\<rparr>)"
    by (auto simp: loop_body_def width_step_def height_step_def warp_step_def read_argv_def
        LocalFree_def Let_def wcscmp_eq_0_iff L_def)
qed

text \<open>
  The passes over \<open>-w -warp\<close>, \<open>--width -h 600\<close>, \<open>-h -warp\<close> and \<open>-w --height --warp\<close>,
  from the theorem.
\<close>

theorem value_token_is_rechecked_witness:
  "loop_body [L ''-w'', L ''-warp''] (start_state initial_globals) =
     Inr \<lparr>glob = \<lparr>g_UseWarp = True, g_ClientWidth = 0, g_ClientHeight = 720\<rparr>,
          i = 1, argv_status = Freed, frees = 1\<rparr>
   \<and> (\<exists>s'. loop_body [L ''--width'', L ''-h'', L ''600''] (start_state initial_globals) = Inr s'
         \<and> i s' = 2 \<and> g_ClientWidth (glob s') = 0 \<and> g_ClientHeight (glob s') = 600)
   \<and> loop_body [L ''-h'', L ''-warp''] (start_state initial_globals) =
     Inr \<lparr>glob = \<lparr>g_UseWarp = True, g_ClientWidth = 1280, g_ClientHeight = 0\<rparr>,
          i = 1, argv_status = Freed, frees = 1\<rparr>
   \<and> loop_body [L ''-w'', L ''--height'', L ''--warp''] (start_state initial_globals) =
     Inr \<lparr>glob = \<lparr>g_UseWarp = True, g_ClientWidth = 0, g_ClientHeight = 0\<rparr>,
          i = 2, argv_status = Freed, frees = 1\<rparr>"
proof -
  let ?argv = "[L ''-w'', L ''-warp'']"
  let ?argv2 = "[L ''--width'', L ''-h'', L ''600'']"
  let ?argv3 = "[L ''-h'', L ''-warp'']"
  let ?argv4 = "[L ''-w'', L ''--height'', L ''--warp'']"
  let ?s = "start_state initial_globals"
  have h: "argv_status ?s = Allocated \<and> i ?s + 1 < length ?argv
      \<and> ?argv ! i ?s \<in> {L ''-w'', L ''--width''} \<and> ?argv ! (i ?s + 1) \<in> {L ''-warp'', L ''--warp''}"
    by (simp add: start_state_def)
  have h2: "argv_status ?s = Allocated \<and> i ?s + 2 < length ?argv2
      \<and> ?argv2 ! i ?s \<in> {L ''-w'', L ''--width''} \<and> ?argv2 ! (i ?s + 1) \<in> {L ''-h'', L ''--height''}"
    by (simp add: start_state_def)
  have h3: "argv_status ?s = Allocated \<and> i ?s + 1 < length ?argv3
      \<and> ?argv3 ! i ?s \<in> {L ''-h'', L ''--height''} \<and> ?argv3 ! (i ?s + 1) \<in> {L ''-warp'', L ''--warp''}"
    by (simp add: start_state_def)
  have h4: "argv_status ?s = Allocated \<and> i ?s + 2 < length ?argv4
      \<and> ?argv4 ! i ?s \<in> {L ''-w'', L ''--width''} \<and> ?argv4 ! (i ?s + 1) \<in> {L ''-h'', L ''--height''}
      \<and> ?argv4 ! (i ?s + 2) \<in> {L ''-warp'', L ''--warp''}"
    by (simp add: start_state_def)
  have v: "wcstol (L ''-warp'') = 0" "wcstol (L ''-h'') = 0" "wcstol (L ''600'') = 600"
    "wcstol (L ''--height'') = 0" "wcstol (L ''--warp'') = 0"
    by (simp_all add: token_defs)
  from value_token_is_rechecked [of ?s ?argv] h
  have "loop_body ?argv ?s =
           Inr (?s\<lparr>i := i ?s + 1,
                  glob := (glob ?s)\<lparr>g_ClientWidth := of_int (wcstol (?argv ! (i ?s + 1))),
                                   g_UseWarp := True\<rparr>,
                  argv_status := Freed, frees := frees ?s + 1\<rparr>)"
    by blast
  then have one: "loop_body ?argv ?s =
     Inr \<lparr>glob = \<lparr>g_UseWarp = True, g_ClientWidth = 0, g_ClientHeight = 720\<rparr>,
          i = 1, argv_status = Freed, frees = 1\<rparr>"
    by (simp add: start_state_def initial_globals_def v)
  from value_token_is_rechecked [of ?s ?argv2] h2
  have "\<exists>s'. loop_body ?argv2 ?s = Inr s' \<and> i s' = i ?s + 2
            \<and> g_ClientWidth (glob s') = of_int (wcstol (?argv2 ! (i ?s + 1)))
            \<and> g_ClientHeight (glob s') = of_int (wcstol (?argv2 ! (i ?s + 2)))"
    by blast
  then have two: "\<exists>s'. loop_body ?argv2 ?s = Inr s'
         \<and> i s' = 2 \<and> g_ClientWidth (glob s') = 0 \<and> g_ClientHeight (glob s') = 600"
    by (simp add: start_state_def v eval_nat_numeral)
  from value_token_is_rechecked [of ?s ?argv3] h3
  have "loop_body ?argv3 ?s =
           Inr (?s\<lparr>i := i ?s + 1,
                  glob := (glob ?s)\<lparr>g_ClientHeight := of_int (wcstol (?argv3 ! (i ?s + 1))),
                                   g_UseWarp := True\<rparr>,
                  argv_status := Freed, frees := frees ?s + 1\<rparr>)"
    by blast
  then have three: "loop_body ?argv3 ?s =
     Inr \<lparr>glob = \<lparr>g_UseWarp = True, g_ClientWidth = 1280, g_ClientHeight = 0\<rparr>,
          i = 1, argv_status = Freed, frees = 1\<rparr>"
    by (simp add: start_state_def initial_globals_def v)
  from value_token_is_rechecked [of ?s ?argv4] h4
  have "loop_body ?argv4 ?s =
           Inr (?s\<lparr>i := i ?s + 2,
                  glob := (glob ?s)\<lparr>g_ClientWidth := of_int (wcstol (?argv4 ! (i ?s + 1))),
                                   g_ClientHeight := of_int (wcstol (?argv4 ! (i ?s + 2))),
                                   g_UseWarp := True\<rparr>,
                  argv_status := Freed, frees := frees ?s + 1\<rparr>)"
    by blast
  then have four: "loop_body ?argv4 ?s =
     Inr \<lparr>glob = \<lparr>g_UseWarp = True, g_ClientWidth = 0, g_ClientHeight = 0\<rparr>,
          i = 2, argv_status = Freed, frees = 1\<rparr>"
    by (simp add: start_state_def initial_globals_def v)
  from one two three four show ?thesis by (intro conjI)
qed


section \<open>Properties of CreateWindow\<close>

subsection \<open>32-bit signed arithmetic without wrap-around\<close>

lemma sint_word_of_int_32:
  "- (2 ^ 31) \<le> k \<Longrightarrow> k < 2 ^ 31 \<Longrightarrow> sint (word_of_int k :: 32 word) = k"
  by (simp add: sint_sbintrunc' signed_take_bit_int_eq_self)

lemma sint_sub_no_wrap:
  fixes a b :: "32 word"
  assumes "0 \<le> sint a" "sint a < sint b"
  shows "sint (a - b) = sint a - sint b"
proof -
  have "sint b < 2 ^ 31" using sint_lt [of b] by simp
  then have "- (2 ^ 31) \<le> sint a - sint b" "sint a - sint b < 2 ^ 31"
    using assms by simp_all
  then show ?thesis
    by (simp add: sint_word_ariths signed_take_bit_int_eq_self)
qed

lemma int_div_neg_by_2:
  fixes a :: "32 word"
  assumes "sint a < 0"
  shows "sint (int_div a 2) \<le> 0"
proof -
  let ?k = "sint a"
  have lo: "- (2 ^ 31) \<le> ?k" using sint_ge [of a] by simp
  have q: "?k sdiv 2 = - (\<bar>?k\<bar> div 2)"
    using assms by (simp add: signed_divide_int_def)
  have "- (2 ^ 31) \<le> ?k sdiv 2" "?k sdiv 2 \<le> 0"
    using lo assms unfolding q by simp_all
  then have "sint (word_of_int (?k sdiv 2) :: 32 word) = ?k sdiv 2"
    by (intro sint_word_of_int_32) simp_all
  then show ?thesis
    using \<open>?k sdiv 2 \<le> 0\<close> by (simp add: int_div_def)
qed

lemma std_max_0_nonneg: "0 \<le> sint (std_max 0 v)"
  by (simp add: std_max_def)

lemma std_max_0_clamps: "sint v \<le> 0 \<Longrightarrow> std_max 0 v = 0"
  by (simp add: std_max_def)

lemma centre_clamped:
  fixes screen window :: "32 word"
  assumes "0 \<le> sint screen" "sint screen < sint window"
  shows "std_max 0 (int_div (screen - window) 2) = 0"
proof -
  have "sint (screen - window) < 0"
    using assms by (simp add: sint_sub_no_wrap)
  then have "sint (int_div (screen - window) 2) \<le> 0"
    by (rule int_div_neg_by_2)
  then show ?thesis by (rule std_max_0_clamps)
qed

lemma sint_sum3:
  fixes w a b :: "32 word"
  assumes "0 \<le> sint a" "0 \<le> sint b" "uint w + sint a + sint b < 2 ^ 31"
  shows "sint (w + (a + b)) = uint w + (sint a + sint b)"
proof -
  have "w + (a + b) = word_of_int (uint w + (sint a + sint b))"
    by simp
  moreover have "0 \<le> uint w + (sint a + sint b)"
    using assms by simp
  ultimately show ?thesis
    using assms(3) by (simp only: sint_word_of_int_32)
qed

subsection \<open>The top-left corner\<close>

text \<open>
  Claim C6. \<open>windowX\<close> and \<open>windowY\<close> are \<open>max(0, (screen - window) / 2)\<close> and are what
  \<open>CreateWindowExW\<close> receives; read as signed values they are never negative; and for a
  screen size (a non-negative metric) smaller than the adjusted window in one direction,
  the coordinate of that direction is 0.
\<close>

theorem CreateWindow_top_left_clamped:
  "(let r = CreateWindow env cn hi ti w h;
        screenWidth = GetSystemMetrics env SM_CXSCREEN;
        screenHeight = GetSystemMetrics env SM_CYSCREEN
    in windowX r = std_max 0 (int_div (screenWidth - windowWidth r) 2)
     \<and> windowY r = std_max 0 (int_div (screenHeight - windowHeight r) 2)
     \<and> X (create_call r) = windowX r \<and> Y (create_call r) = windowY r
     \<and> 0 \<le> sint (windowX r) \<and> 0 \<le> sint (windowY r)
     \<and> (0 \<le> sint screenWidth \<and> sint screenWidth < sint (windowWidth r) \<longrightarrow> windowX r = 0)
     \<and> (0 \<le> sint screenHeight \<and> sint screenHeight < sint (windowHeight r) \<longrightarrow> windowY r = 0))"
  unfolding Let_def
  by (simp add: CreateWindow_def Let_def std_max_0_nonneg centre_clamped)

text \<open>A 2560 by 1440 client area on the 1920 by 1080 display: both coordinates are 0.\<close>

theorem CreateWindow_top_left_clamped_witness:
  "0 \<le> sint (GetSystemMetrics example_win_env SM_CXSCREEN)
   \<and> sint (GetSystemMetrics example_win_env SM_CXSCREEN)
       < sint (windowWidth (CreateWindow example_win_env [] 1 [] 2560 1440))
   \<and> 0 \<le> sint (GetSystemMetrics example_win_env SM_CYSCREEN)
   \<and> sint (GetSystemMetrics example_win_env SM_CYSCREEN)
       < sint (windowHeight (CreateWindow example_win_env [] 1 [] 2560 1440))
   \<and> windowX (CreateWindow example_win_env [] 1 [] 2560 1440) = 0
   \<and> windowY (CreateWindow example_win_env [] 1 [] 2560 1440) = 0"
proof -
  let ?r = "CreateWindow example_win_env [] 1 [] 2560 1440"
  let ?sw = "GetSystemMetrics example_win_env SM_CXSCREEN"
  let ?sh = "GetSystemMetrics example_win_env SM_CYSCREEN"
  have w: "windowWidth ?r = 2576" and h: "windowHeight ?r = 1479"
    by (simp_all add: CreateWindow_def AdjustWindowRect_def example_win_env_def Let_def)
  have m: "?sw = 1920" "?sh = 1080"
    by (simp_all add: example_win_env_def SM_CXSCREEN_def SM_CYSCREEN_def)
  have "(0 \<le> sint ?sw \<and> sint ?sw < sint (windowWidth ?r) \<longrightarrow> windowX ?r = 0)
     \<and> (0 \<le> sint ?sh \<and> sint ?sh < sint (windowHeight ?r) \<longrightarrow> windowY ?r = 0)"
    using CreateWindow_top_left_clamped [of example_win_env "[]" 1 "[]" 2560 1440]
    unfolding Let_def by blast
  then show ?thesis
    by (simp add: w h m)
qed

subsection \<open>The window rectangle\<close>

text \<open>
  Claim C7. The rectangle starts as \<open>{0, 0, width, height}\<close> and is adjusted for the
  overlapped-window style without a menu. Its width and height, which are what
  \<open>CreateWindowExW\<close> receives, are the requested width and height plus exactly the frame
  extents, so the client area left inside the frame is the requested one. As 32-bit
  values this holds always; as integers it holds whenever the sums fit a \<open>LONG\<close>.
\<close>

theorem CreateWindow_client_area:
  "(let r = CreateWindow env cn hi ti w h;
        c = frame_of_style env WS_OVERLAPPEDWINDOW False
    in windowWidth r = right (windowRect r) - left (windowRect r)
     \<and> windowHeight r = bottom (windowRect r) - top_edge (windowRect r)
     \<and> windowWidth r = w + (frame_left c + frame_right c)
     \<and> windowHeight r = h + (frame_top c + frame_bottom c)
     \<and> nWidth (create_call r) = windowWidth r \<and> nHeight (create_call r) = windowHeight r
     \<and> (0 \<le> sint (frame_left c) \<and> 0 \<le> sint (frame_right c)
          \<and> uint w + sint (frame_left c) + sint (frame_right c) < 2 ^ 31
        \<longrightarrow> sint (windowWidth r) - (sint (frame_left c) + sint (frame_right c)) = uint w)
     \<and> (0 \<le> sint (frame_top c) \<and> 0 \<le> sint (frame_bottom c)
          \<and> uint h + sint (frame_top c) + sint (frame_bottom c) < 2 ^ 31
        \<longrightarrow> sint (windowHeight r) - (sint (frame_top c) + sint (frame_bottom c)) = uint h))"
proof -
  let ?c = "frame_of_style env WS_OVERLAPPEDWINDOW False"
  let ?r = "CreateWindow env cn hi ti w h"
  have ww: "windowWidth ?r = w + (frame_left ?c + frame_right ?c)"
    and wh: "windowHeight ?r = h + (frame_top ?c + frame_bottom ?c)"
    by (simp_all add: CreateWindow_def AdjustWindowRect_def Let_def)
  have rest: "windowWidth ?r = right (windowRect ?r) - left (windowRect ?r)"
    "windowHeight ?r = bottom (windowRect ?r) - top_edge (windowRect ?r)"
    "nWidth (create_call ?r) = windowWidth ?r" "nHeight (create_call ?r) = windowHeight ?r"
    by (simp_all add: CreateWindow_def Let_def)
  have iw: "0 \<le> sint (frame_left ?c) \<and> 0 \<le> sint (frame_right ?c)
          \<and> uint w + sint (frame_left ?c) + sint (frame_right ?c) < 2 ^ 31
        \<longrightarrow> sint (windowWidth ?r) - (sint (frame_left ?c) + sint (frame_right ?c)) = uint w"
    by (simp add: ww sint_sum3)
  have ih: "0 \<le> sint (frame_top ?c) \<and> 0 \<le> sint (frame_bottom ?c)
          \<and> uint h + sint (frame_top ?c) + sint (frame_bottom ?c) < 2 ^ 31
        \<longrightarrow> sint (windowHeight ?r) - (sint (frame_top ?c) + sint (frame_bottom ?c)) = uint h"
    by (simp add: wh sint_sum3)
  show ?thesis
    unfolding Let_def
    by (intro conjI) (fact rest ww wh iw ih)+
qed

text \<open>
  The default 1280 by 720 client area with the example frame: a 1296 by 759 window.
\<close>

theorem CreateWindow_client_area_witness:
  "0 \<le> sint (frame_left (frame_of_style example_win_env WS_OVERLAPPEDWINDOW False))
   \<and> 0 \<le> sint (frame_top (frame_of_style example_win_env WS_OVERLAPPEDWINDOW False))
   \<and> sint (windowWidth (CreateWindow example_win_env [] 1 [] 1280 720)) = 1296
   \<and> sint (windowHeight (CreateWindow example_win_env [] 1 [] 1280 720)) = 759
   \<and> sint (windowWidth (CreateWindow example_win_env [] 1 [] 1280 720)) - (8 + 8)
       = uint (1280 :: 32 word)
   \<and> sint (windowHeight (CreateWindow example_win_env [] 1 [] 1280 720)) - (31 + 8)
       = uint (720 :: 32 word)"
proof -
  let ?r = "CreateWindow example_win_env [] 1 [] 1280 720"
  let ?c = "frame_of_style example_win_env WS_OVERLAPPEDWINDOW False"
  have c: "?c = \<lparr>frame_left = 8, frame_top = 31, frame_right = 8, frame_bottom = 8\<rparr>"
    by (simp add: example_win_env_def)
  have "(0 \<le> sint (frame_left ?c) \<and> 0 \<le> sint (frame_right ?c)
          \<and> uint (1280 :: 32 word) + sint (frame_left ?c) + sint (frame_right ?c) < 2 ^ 31
        \<longrightarrow> sint (windowWidth ?r) - (sint (frame_left ?c) + sint (frame_right ?c))
             = uint (1280 :: 32 word))
     \<and> (0 \<le> sint (frame_top ?c) \<and> 0 \<le> sint (frame_bottom ?c)
          \<and> uint (720 :: 32 word) + sint (frame_top ?c) + sint (frame_bottom ?c) < 2 ^ 31
        \<longrightarrow> sint (windowHeight ?r) - (sint (frame_top ?c) + sint (frame_bottom ?c))
             = uint (720 :: 32 word))"
    using CreateWindow_client_area [of example_win_env "[]" 1 "[]" 1280 720]
    unfolding Let_def by blast
  then show ?thesis
    by (simp add: c)
qed


section \<open>Functions that end without a return statement\<close>

text \<open>
  Claim C5. \<open>CreateWindow\<close> and \<open>GetAdapter\<close> are declared to return a value and have no
  \<open>return\<close> statement. \<open>CreateWindow\<close> always runs to its closing brace, the handle left
  in the local \<open>hWnd\<close>. \<open>GetAdapter\<close> never returns an adapter, for \<open>useWarp\<close> true or
  false: unless a \<open>ThrowIfFailed\<close> on its way throws, it runs to its closing brace.
\<close>

theorem no_return_statement:
  "ending (CreateWindow wenv cn hi ti w h) = FellOffEnd
   \<and> (\<forall>a. result (GetAdapter env useWarp) \<noteq> Returned a)
   \<and> (SUCCEEDED (CreateDXGIFactory2_hr env
          (if debug_build env then DXGI_CREATE_FACTORY_DEBUG else 0))
        \<and> (useWarp \<longrightarrow> SUCCEEDED (EnumWarpAdapter_hr env) \<and> SUCCEEDED (As_hr env))
      \<longrightarrow> result (GetAdapter env useWarp) = FellOffEnd)"
  by (auto simp: CreateWindow_def GetAdapter_def Let_def ThrowIfFailed_def FAILED_def
        SUCCEEDED_def split: sum.splits)

text \<open>With every DXGI call succeeding, both branches of \<open>GetAdapter\<close> fall off the end.\<close>

theorem no_return_statement_witness:
  "ending (CreateWindow example_win_env (L ''DX12WindowClass'') 1 (L ''Learning DirectX 12'')
      1280 720) = FellOffEnd
   \<and> SUCCEEDED (CreateDXGIFactory2_hr example_dxgi_env 0)
   \<and> SUCCEEDED (EnumWarpAdapter_hr example_dxgi_env) \<and> SUCCEEDED (As_hr example_dxgi_env)
   \<and> result (GetAdapter example_dxgi_env True) = FellOffEnd
   \<and> result (GetAdapter example_dxgi_env False) = FellOffEnd"
  using no_return_statement [of example_win_env "L ''DX12WindowClass''" 1
      "L ''Learning DirectX 12''" 1280 720 example_dxgi_env True]
    no_return_statement [of example_win_env "L ''DX12WindowClass''" 1
      "L ''Learning DirectX 12''" 1280 720 example_dxgi_env False]
  by (simp add: example_dxgi_env_def SUCCEEDED_def)


section \<open>Properties of GetAdapter\<close>

text \<open>
  Claim C8. With \<open>useWarp\<close> true, \<open>GetAdapter\<close> never enumerates physical adapters: its
  calls never include \<open>EnumAdapters1\<close>, and when none fails they are exactly the factory
  creation, \<open>EnumWarpAdapter\<close> and the cast to \<open>IDXGIAdapter4\<close>.
\<close>

theorem GetAdapter_warp_no_enumeration:
  "(\<forall>k. EnumAdapters1 k \<notin> set (calls (GetAdapter env True)))
   \<and> (SUCCEEDED (CreateDXGIFactory2_hr env
          (if debug_build env then DXGI_CREATE_FACTORY_DEBUG else 0))
        \<and> SUCCEEDED (EnumWarpAdapter_hr env) \<and> SUCCEEDED (As_hr env)
      \<longrightarrow> calls (GetAdapter env True) =
            [CreateDXGIFactory2 (if debug_build env then DXGI_CREATE_FACTORY_DEBUG else 0),
             EnumWarpAdapter, As_IDXGIAdapter4])"
  by (auto simp: GetAdapter_def Let_def ThrowIfFailed_def FAILED_def SUCCEEDED_def
        split: sum.splits)

theorem GetAdapter_warp_no_enumeration_witness:
  "SUCCEEDED (CreateDXGIFactory2_hr example_dxgi_env 0)
   \<and> SUCCEEDED (EnumWarpAdapter_hr example_dxgi_env) \<and> SUCCEEDED (As_hr example_dxgi_env)
   \<and> calls (GetAdapter example_dxgi_env True) =
       [CreateDXGIFactory2 0, EnumWarpAdapter, As_IDXGIAdapter4]"
  using GetAdapter_warp_no_enumeration [of example_dxgi_env]
  by (simp add: example_dxgi_env_def SUCCEEDED_def)


section \<open>Properties of RegisterWindowClass\<close>

text \<open>
  Claim C10. The atom is a function-local static, so \<open>RegisterClassExW\<close> runs on the first
  call only. A call that returns leaves the static set; any later call, whatever its
  arguments, registers nothing, asserts on the stored atom again and leaves the state as
  it was: calling twice has the effect of calling once.
\<close>

theorem RegisterWindowClass_idempotent:
  "RegisterWindowClass env h n s = Inr s1 \<longrightarrow>
     RegisterWindowClass env h' n' s1 = Inr s1
     \<and> (atom s = None \<longrightarrow>
          atom s1 = Some (RegisterClassExW env (window_class env h n))
          \<and> register_calls s1 = register_calls s @ [window_class env h n])
     \<and> (atom s \<noteq> None \<longrightarrow> s1 = s)
     \<and> atom s1 \<noteq> None"
  by (auto simp: RegisterWindowClass_def Let_def split: option.splits if_splits)

text \<open>
  Two calls from the start of the process, the second for another class: one
  registration, and the second call changes nothing.
\<close>

theorem RegisterWindowClass_idempotent_witness:
  "atom initial_reg_state = None
   \<and> RegisterWindowClass example_reg_env 1 (L ''DX12WindowClass'') initial_reg_state =
       Inr \<lparr>atom = Some 0xC001,
            register_calls = [window_class example_reg_env 1 (L ''DX12WindowClass'')]\<rparr>
   \<and> atom \<lparr>atom = Some 0xC001,
         register_calls = [window_class example_reg_env 1 (L ''DX12WindowClass'')]\<rparr> \<noteq> None
   \<and> RegisterWindowClass example_reg_env 2 (L ''Another'')
        \<lparr>atom = Some 0xC001,
         register_calls = [window_class example_reg_env 1 (L ''DX12WindowClass'')]\<rparr> =
       Inr \<lparr>atom = Some 0xC001,
            register_calls = [window_class example_reg_env 1 (L ''DX12WindowClass'')]\<rparr>"
proof -
  let ?s1 = "\<lparr>atom = Some 0xC001,
          register_calls = [window_class example_reg_env 1 (L ''DX12WindowClass'')]\<rparr>"
  have first:
    "RegisterWindowClass example_reg_env 1 (L ''DX12WindowClass'') initial_reg_state = Inr ?s1"
    by (simp add: RegisterWindowClass_def initial_reg_state_def example_reg_env_def Let_def)
  have second: "RegisterWindowClass example_reg_env 2 (L ''Another'') ?s1 = Inr ?s1"
    using RegisterWindowClass_idempotent [of example_reg_env 1 "L ''DX12WindowClass''"
      initial_reg_state ?s1 2 "L ''Another''"] first
    by blast
  have "atom ?s1 \<noteq> None \<longrightarrow> ?s1 = ?s1"
    using RegisterWindowClass_idempotent [of example_reg_env 2 "L ''Another''" ?s1 ?s1
      2 "L ''Another''"] second
    by blast
  with first second show ?thesis
    by (simp add: initial_reg_state_def)
qed

end
